theory Spec2Isabelle
  imports Main "HOL-Library.Word" "HOL-Library.Sublist"
begin

section \<open>JavaScript values used by the client\<close>

text \<open>
  A JavaScript string is a sequence of 16-bit code units. Literals of the source that are
  plain ASCII are written \<open>js ''...''\<close>; the pictographs of the confirmation messages are
  written as their code units.
\<close>

type_synonym jsstring = "16 word list"

definition js :: "string \<Rightarrow> jsstring" where
  "js s = map of_char s"

text \<open>
  A Number is kept by the two observations the client makes of it: whether it is falsy
  (\<open>+0\<close>, \<open>-0\<close>, \<open>NaN\<close>) and the text that template interpolation gives for it.
\<close>

datatype jsnumber = Number (falsy: bool) (rendering: jsstring)

datatype jsval =
    JUndefined
  | JNull
  | JBool bool
  | JNum jsnumber
  | JStr jsstring
  | JArr "jsval list"
  | JObj "(jsstring \<times> jsval) list"

text \<open>An exception object: the client only ever reads its \<open>message\<close>.\<close>

datatype js_error = Error (message: jsstring)

text \<open>
  What the runtime supplies at one point of a handler: \<open>Date.now()\<close>,
  \<open>new Date().toLocaleTimeString()\<close>, and the message of the TypeError the engine raises
  when a property of \<open>null\<close> is read or a non-function is called.
\<close>

record runtime =
  now :: int
  localeTime :: jsstring
  typeErrorMessage :: jsstring

fun truthy :: "jsval \<Rightarrow> bool" where
  "truthy JUndefined = False"
| "truthy JNull = False"
| "truthy (JBool b) = b"
| "truthy (JNum n) = (\<not> falsy n)"
| "truthy (JStr s) = (s \<noteq> [])"
| "truthy (JArr xs) = True"
| "truthy (JObj kvs) = True"

text \<open>\<open>a || b\<close>\<close>

definition or_else :: "jsval \<Rightarrow> jsval \<Rightarrow> jsval" where
  "or_else a b = (if truthy a then a else b)"

text \<open>
  \<open>v.k\<close> for the property names the client reads (none of them is a property of a
  prototype): an object gives its own property, every other value that has properties
  gives \<open>undefined\<close>. Reading a property of \<open>null\<close> or \<open>undefined\<close> raises a TypeError.
\<close>

fun field :: "jsval \<Rightarrow> jsstring \<Rightarrow> jsval" where
  "field (JObj kvs) k = (case map_of kvs k of None \<Rightarrow> JUndefined | Some v \<Rightarrow> v)"
| "field v k = JUndefined"

definition nullish :: "jsval \<Rightarrow> bool" where
  "nullish v = (v = JUndefined \<or> v = JNull)"

definition getProp :: "runtime \<Rightarrow> jsval \<Rightarrow> jsstring \<Rightarrow> js_error + jsval" where
  "getProp rt v k = (if nullish v then Inl (Error (typeErrorMessage rt)) else Inr (field v k))"

text \<open>
  ToString, as template interpolation and \<open>new Error(v)\<close> apply it. An object parsed from
  JSON has no callable own property: with an own \<open>toString\<close> the conversion finds neither
  a callable \<open>toString\<close> nor a \<open>valueOf\<close> that gives a primitive, and raises a TypeError;
  without one it is \<open>[object Object]\<close>. An array is its elements joined by commas, with
  \<open>null\<close> and \<open>undefined\<close> elements as the empty string.
\<close>

fun toStr :: "runtime \<Rightarrow> jsval \<Rightarrow> js_error + jsstring"
  and join :: "runtime \<Rightarrow> jsval list \<Rightarrow> js_error + jsstring" where
  "toStr rt JUndefined = Inr (js ''undefined'')"
| "toStr rt JNull = Inr (js ''null'')"
| "toStr rt (JBool b) = Inr (if b then js ''true'' else js ''false'')"
| "toStr rt (JNum n) = Inr (rendering n)"
| "toStr rt (JStr s) = Inr s"
| "toStr rt (JArr xs) = join rt xs"
| "toStr rt (JObj kvs) =
     (if map_of kvs (js ''toString'') \<noteq> None then Inl (Error (typeErrorMessage rt))
      else Inr (js ''[object Object]''))"
| "join rt [] = Inr []"
| "join rt (x # xs) =
     (case (if nullish x then Inr [] else toStr rt x) of
        Inl err \<Rightarrow> Inl err
      | Inr a \<Rightarrow>
          if xs = [] then Inr a
          else (case join rt xs of Inl err \<Rightarrow> Inl err | Inr b \<Rightarrow> Inr (a @ js '','' @ b)))"

text \<open>
  A template literal: its parts, literal text and interpolated values, from left to
  right; the first conversion that raises ends it.
\<close>

fun template :: "(js_error + jsstring) list \<Rightarrow> js_error + jsstring" where
  "template [] = Inr []"
| "template (part # parts) =
     (case part of
        Inl err \<Rightarrow> Inl err
      | Inr a \<Rightarrow> (case template parts of Inl err \<Rightarrow> Inl err | Inr b \<Rightarrow> Inr (a @ b)))"

text \<open>Decimal digits of an HTTP status, for \<open>${response.status}\<close>.\<close>

fun digits :: "nat \<Rightarrow> jsstring" where
  "digits n = (if n < 10 then [of_nat (48 + n)] else digits (n div 10) @ [of_nat (48 + n mod 10)])"

declare digits.simps [simp del]

section \<open>String operations\<close>

text \<open>\<open>s.startsWith(p)\<close>\<close>

fun startsWith :: "jsstring \<Rightarrow> jsstring \<Rightarrow> bool" where
  "startsWith s [] = True"
| "startsWith [] (p # ps) = False"
| "startsWith (c # cs) (p # ps) = (c = p \<and> startsWith cs ps)"

text \<open>\<open>s.includes(p)\<close>\<close>

fun includes_str :: "jsstring \<Rightarrow> jsstring \<Rightarrow> bool" where
  "includes_str [] p = (p = [])"
| "includes_str (c # cs) p = (startsWith (c # cs) p \<or> includes_str cs p)"

text \<open>WhiteSpace and LineTerminator code units, which \<open>trim\<close> strips.\<close>

definition isWhiteSpace :: "16 word \<Rightarrow> bool" where
  "isWhiteSpace c =
     (c = 0x09 \<or> c = 0x0A \<or> c = 0x0B \<or> c = 0x0C \<or> c = 0x0D \<or> c = 0x20 \<or> c = 0xA0
      \<or> c = 0x1680 \<or> (0x2000 \<le> c \<and> c \<le> 0x200A) \<or> c = 0x2028 \<or> c = 0x2029
      \<or> c = 0x202F \<or> c = 0x205F \<or> c = 0x3000 \<or> c = 0xFEFF)"

definition trim :: "jsstring \<Rightarrow> jsstring" where
  "trim s = rev (dropWhile isWhiteSpace (rev (dropWhile isWhiteSpace s)))"

section \<open>API client (services/api.js)\<close>

definition API_BASE_URL :: jsstring where
  "API_BASE_URL = js ''https://codebuddy-backend-2e8g.onrender.com/api''"

datatype http_method = GET | POST

record http_request =
  url :: jsstring
  request_method :: http_method
  body :: jsval

text \<open>
  A response: its status and what \<open>response.json()\<close> gives (the parsed body, or the
  error it rejects with).
\<close>

record http_response =
  status :: nat
  json :: "js_error + jsval"

definition ok :: "http_response \<Rightarrow> bool" where
  "ok r = (200 \<le> status r \<and> status r \<le> 299)"

text \<open>The network: \<open>fetch\<close> rejects with an error or resolves with a response.\<close>

type_synonym network = "http_request \<Rightarrow> js_error + http_response"

definition sendPrompt ::
  "runtime \<Rightarrow> network \<Rightarrow> jsstring \<Rightarrow> jsstring \<Rightarrow> bool \<Rightarrow> js_error + jsval" where
  "sendPrompt rt fetch prompt workingDirectory verbose =
     (case fetch \<lparr>url = API_BASE_URL @ js ''/chat'', request_method = POST,
                   body = JObj [(js ''prompt'', JStr prompt),
                                (js ''working_directory'', JStr workingDirectory),
                                (js ''verbose'', JBool verbose)]\<rparr> of
        Inl error \<Rightarrow> Inl error
      | Inr response \<Rightarrow>
          (case json response of
             Inl error \<Rightarrow> Inl error
           | Inr data \<Rightarrow>
               if \<not> ok response then
                 (case getProp rt data (js ''error'') of
                    Inl error \<Rightarrow> Inl error
                  | Inr e \<Rightarrow>
                      (case toStr rt (or_else e
                              (JStr (js ''HTTP error! status: '' @ digits (status response)))) of
                         Inl error \<Rightarrow> Inl error
                       | Inr msg \<Rightarrow> Inl (Error msg)))
               else Inr data))"

definition validateDirectory :: "network \<Rightarrow> jsstring \<Rightarrow> js_error + jsval" where
  "validateDirectory fetch directory =
     (case fetch \<lparr>url = API_BASE_URL @ js ''/validate-directory'', request_method = POST,
                   body = JObj [(js ''directory'', JStr directory)]\<rparr> of
        Inl error \<Rightarrow> Inr (JObj [(js ''valid'', JBool False), (js ''error'', JStr (message error))])
      | Inr response \<Rightarrow>
          (case json response of
             Inl error \<Rightarrow>
               Inr (JObj [(js ''valid'', JBool False), (js ''error'', JStr (message error))])
           | Inr data \<Rightarrow> Inr data))"

definition validateRepository :: "network \<Rightarrow> jsstring \<Rightarrow> js_error + jsval" where
  "validateRepository fetch repoUrl =
     (case fetch \<lparr>url = API_BASE_URL @ js ''/validate-repo'', request_method = POST,
                   body = JObj [(js ''repo_url'', JStr repoUrl)]\<rparr> of
        Inl error \<Rightarrow> Inr (JObj [(js ''valid'', JBool False), (js ''error'', JStr (message error))])
      | Inr response \<Rightarrow>
          (case json response of
             Inl error \<Rightarrow>
               Inr (JObj [(js ''valid'', JBool False), (js ''error'', JStr (message error))])
           | Inr data \<Rightarrow> Inr data))"

text \<open>The object \<open>checkBackendHealth\<close> builds: \<open>{healthy, data}\<close> or \<open>{healthy, error}\<close>.\<close>

record health =
  h_healthy :: bool
  h_data :: "jsval option"
  h_error :: "jsstring option"

definition checkBackendHealth :: "network \<Rightarrow> js_error + health" where
  "checkBackendHealth fetch =
     (case fetch \<lparr>url = API_BASE_URL @ js ''/health'', request_method = GET, body = JUndefined\<rparr> of
        Inl error \<Rightarrow>
          Inr \<lparr>h_healthy = False, h_data = None, h_error = Some (message error)\<rparr>
      | Inr response \<Rightarrow>
          (case json response of
             Inl error \<Rightarrow>
               Inr \<lparr>h_healthy = False, h_data = None, h_error = Some (message error)\<rparr>
           | Inr data \<Rightarrow>
               Inr \<lparr>h_healthy = ok response, h_data = Some data, h_error = None\<rparr>))"

section \<open>Conversation controller (App.jsx)\<close>

datatype message_type = user | ai | error_type | system

text \<open>
  A chat message. The four properties after \<open>timestamp\<close> exist on assistant messages
  only.
\<close>

record message =
  msg_id :: int
  msg_type :: message_type
  content :: jsval
  timestamp :: jsstring
  functionCalls :: "jsval list option"
  tokenCount :: "jsval option"
  iterations :: "jsval option"
  repositoryInfo :: "jsval option"

record backend_status =
  healthy :: bool
  checking_flag :: bool

text \<open>
  The state variables of \<open>App\<close>, one field for each \<open>useState\<close>. A handler reads
  the variables of the latest render, which React has brought up to date before the next
  event is handled; after an \<open>await\<close> the handlers read no state variable, they only
  set variables, and they append to \<open>messages\<close> with a function of its current value.
\<close>

record state =
  showCover :: bool
  messages :: "message list"
  inputMessage :: jsstring
  verboseMode :: bool
  isTyping :: bool
  workingDirectory :: jsstring
  backendStatus :: backend_status
  error :: "jsstring option"

definition plain_message :: "int \<Rightarrow> message_type \<Rightarrow> jsval \<Rightarrow> jsstring \<Rightarrow> message" where
  "plain_message i t c ts =
     \<lparr>msg_id = i, msg_type = t, content = c, timestamp = ts, functionCalls = None,
      tokenCount = None, iterations = None, repositoryInfo = None\<rparr>"

definition initial_state :: "runtime \<Rightarrow> state" where
  "initial_state rt =
     \<lparr>showCover = True,
      messages = [plain_message 1 ai
        (JStr (js (''Hello! I'' @ [CHR 0x27] @ ''m your AI Coding Buddy. I can analyze your codebase, '' @
                   ''understand project structure, and help with development tasks. '' @
                   ''Just provide a local directory path or Git repository URL!'')))
        (localeTime rt)],
      inputMessage = [],
      verboseMode = False,
      isTyping = False,
      workingDirectory = js ''https://github.com/microsoft/calculator'',
      backendStatus = \<lparr>healthy = False, checking_flag = True\<rparr>,
      error = None\<rparr>"

text \<open>A call into the API client that a handler has made and is awaiting.\<close>

datatype api_call =
    SendPrompt jsstring jsstring bool
  | ValidateRepository jsstring
  | ValidateDirectory jsstring

subsection \<open>Health polling\<close>

text \<open>
  The body of \<open>checkHealth\<close> after its \<open>await\<close>. There is no \<open>try\<close> around it: were
  \<open>checkBackendHealth\<close> to reject, no state would be set.
\<close>

definition checkHealth_resume :: "js_error + health \<Rightarrow> state \<Rightarrow> state" where
  "checkHealth_resume r s =
     (case r of
        Inl err \<Rightarrow> s
      | Inr h \<Rightarrow>
          (let s1 = s\<lparr>backendStatus := \<lparr>healthy = h_healthy h, checking_flag = False\<rparr>\<rparr>
           in if \<not> h_healthy h
              then s1\<lparr>error := Some (js ''Backend is not available. Please start the Flask server.'')\<rparr>
              else s1))"

definition checkHealth :: "network \<Rightarrow> state \<Rightarrow> state" where
  "checkHealth fetch s = checkHealth_resume (checkBackendHealth fetch) s"

subsection \<open>handleSendMessage\<close>

text \<open>
  The handler up to its \<open>await\<close>: the guard, the user message, and the call of
  \<open>sendPrompt\<close>. The result is the new state and the call made, if any.
\<close>

definition handleSendMessage_begin :: "runtime \<Rightarrow> state \<Rightarrow> state \<times> api_call option" where
  "handleSendMessage_begin rt s =
     (if trim (inputMessage s) = [] \<or> isTyping s then (s, None)
      else
        (let userMessage = plain_message (now rt) user (JStr (inputMessage s)) (localeTime rt);
             currentPrompt = inputMessage s
         in (s\<lparr>error := None,
               messages := messages s @ [userMessage],
               inputMessage := [],
               isTyping := True\<rparr>,
             Some (SendPrompt currentPrompt (workingDirectory s) (verboseMode s)))))"

text \<open>\<open>xs.map(fc => fc.name)\<close>: the first element that is \<open>null\<close> raises.\<close>

fun map_names :: "runtime \<Rightarrow> jsval list \<Rightarrow> js_error + jsval list" where
  "map_names rt [] = Inr []"
| "map_names rt (fc # fcs) =
     (case getProp rt fc (js ''name'') of
        Inl err \<Rightarrow> Inl err
      | Inr n \<Rightarrow> (case map_names rt fcs of Inl err \<Rightarrow> Inl err | Inr ns \<Rightarrow> Inr (n # ns)))"

text \<open>
  \<open>v?.map(fc => fc.name) || []\<close>: \<open>?.\<close> stops at a nullish \<open>v\<close>; an array is mapped;
  any other value has no callable \<open>map\<close>, and the call raises a TypeError.
\<close>

fun function_call_names :: "runtime \<Rightarrow> jsval \<Rightarrow> js_error + jsval list" where
  "function_call_names rt JUndefined = Inr []"
| "function_call_names rt JNull = Inr []"
| "function_call_names rt (JArr fcs) = map_names rt fcs"
| "function_call_names rt v = Inl (Error (typeErrorMessage rt))"

text \<open>The \<open>catch\<close> block of \<open>handleSendMessage\<close>.\<close>

definition handleSendMessage_catch :: "runtime \<Rightarrow> js_error \<Rightarrow> state \<Rightarrow> state" where
  "handleSendMessage_catch rt err s =
     (let errorMessage = plain_message (now rt + 1) error_type
            (JStr (js ''Failed to process request: '' @ message err)) (localeTime rt)
      in s\<lparr>messages := messages s @ [errorMessage], error := Some (message err)\<rparr>)"

text \<open>The \<open>try\<close> block after the \<open>await\<close>: \<open>Inl\<close> is an exception raised in it.\<close>

definition handleSendMessage_try :: "runtime \<Rightarrow> js_error + jsval \<Rightarrow> state \<Rightarrow> js_error + state" where
  "handleSendMessage_try rt r s =
     (case r of
        Inl err \<Rightarrow> Inl err
      | Inr response \<Rightarrow>
          (case getProp rt response (js ''success'') of
             Inl err \<Rightarrow> Inl err
           | Inr success \<Rightarrow>
               if truthy success then
                 (case function_call_names rt (field response (js ''functionCalls'')) of
                    Inl err \<Rightarrow> Inl err
                  | Inr names \<Rightarrow>
                      (let aiMessage =
                             \<lparr>msg_id = now rt + 1, msg_type = ai,
                              content = field response (js ''finalResponse''),
                              timestamp = localeTime rt,
                              functionCalls = Some names,
                              tokenCount = Some (field response (js ''tokenCounts'')),
                              iterations = Some (field response (js ''totalIterations'')),
                              repositoryInfo = Some (field response (js ''repositoryInfo''))\<rparr>
                       in Inr (s\<lparr>messages := messages s @ [aiMessage]\<rparr>)))
               else
                 (case template [Inr (js ''Error: ''),
                         toStr rt (or_else (field response (js ''error''))
                                           (JStr (js ''Unknown error occurred'')))] of
                    Inl err \<Rightarrow> Inl err
                  | Inr text \<Rightarrow>
                      (let errorMessage = plain_message (now rt + 1) error_type (JStr text)
                             (localeTime rt)
                       in Inr (s\<lparr>messages := messages s @ [errorMessage]\<rparr>)))))"

text \<open>The handler from the \<open>await\<close> on: \<open>try\<close>, \<open>catch\<close>, \<open>finally\<close>.\<close>

definition handleSendMessage_resume :: "runtime \<Rightarrow> js_error + jsval \<Rightarrow> state \<Rightarrow> state" where
  "handleSendMessage_resume rt r s =
     (let s1 = (case handleSendMessage_try rt r s of
                  Inl err \<Rightarrow> handleSendMessage_catch rt err s
                | Inr s' \<Rightarrow> s')
      in s1\<lparr>isTyping := False\<rparr>)"

text \<open>
  The whole handler, when nothing else happens while it awaits: \<open>rt1\<close> is the runtime at
  the submit event, \<open>rt2\<close> when the response arrives.
\<close>

definition handleSendMessage :: "runtime \<Rightarrow> runtime \<Rightarrow> network \<Rightarrow> state \<Rightarrow> state" where
  "handleSendMessage rt1 rt2 fetch s =
     (case handleSendMessage_begin rt1 s of
        (s1, Some (SendPrompt p wd v)) \<Rightarrow> handleSendMessage_resume rt2 (sendPrompt rt2 fetch p wd v) s1
      | (s1, _) \<Rightarrow> s1)"

subsection \<open>handleDirectoryChange\<close>

definition isGitUrl :: "jsstring \<Rightarrow> bool" where
  "isGitUrl newPath =
     (includes_str newPath (js ''github.com'') \<or> includes_str newPath (js ''gitlab.com'')
      \<or> includes_str newPath (js ''.git'') \<or> startsWith newPath (js ''https://'')
      \<or> startsWith newPath (js ''http://''))"

text \<open>
  The handler up to its \<open>await\<close>. \<open>answer\<close> is what the \<open>prompt\<close> dialog returns:
  \<open>None\<close> is \<open>null\<close> (the dialog was cancelled). The handler reads no state before
  the call.
\<close>

definition handleDirectoryChange_begin :: "jsstring option \<Rightarrow> state \<Rightarrow> state \<times> api_call option" where
  "handleDirectoryChange_begin answer s =
     (case answer of
        None \<Rightarrow> (s, None)
      | Some newPath \<Rightarrow>
          if newPath = [] then (s, None)
          else (s\<lparr>isTyping := True\<rparr>,
                Some (if isGitUrl newPath then ValidateRepository newPath
                      else ValidateDirectory newPath)))"

text \<open>\<open>v || 0\<close>\<close>

definition or_zero :: "jsval \<Rightarrow> jsval" where
  "or_zero v = or_else v (JNum (Number True (js ''0'')))"

text \<open>
  The branch \<open>if (isGitUrl)\<close> after \<open>validateRepository\<close> has returned. An exception
  (\<open>Inl\<close>) comes with the state that the setters called before it have left.
\<close>

definition repository_validated ::
  "runtime \<Rightarrow> jsstring \<Rightarrow> jsval \<Rightarrow> state \<Rightarrow> (js_error \<times> state) + state" where
  "repository_validated rt newPath validation s =
     (case getProp rt validation (js ''valid'') of
        Inl err \<Rightarrow> Inl (err, s)
      | Inr valid \<Rightarrow>
          if truthy valid then
            (let s1 = s\<lparr>workingDirectory := newPath, error := None\<rparr>
             in case template
                  [Inr ([0x2705] @ js '' Git repository connected: ''), Inr newPath,
                   Inr ([0x0A, 0xD83D, 0xDD17] @ js '' Branch: ''),
                   toStr rt (or_else (field validation (js ''branch'')) (JStr (js ''main''))),
                   Inr ([0x0A, 0xD83D, 0xDCCA] @ js '' ''),
                   toStr rt (or_zero (field validation (js ''code_files''))),
                   Inr (js '' code files, ''),
                   toStr rt (or_zero (field validation (js ''total_files''))),
                   Inr (js '' total files (''),
                   toStr rt (or_zero (field validation (js ''size_mb''))),
                   Inr (js ''MB)'' @ [0x0A, 0xD83D, 0xDCDD] @ js '' Last commit: ''),
                   toStr rt (or_else (field validation (js ''last_commit''))
                                     (JStr (js ''Unknown'')))] of
                  Inl err \<Rightarrow> Inl (err, s1)
                | Inr text \<Rightarrow>
                    (let confirmMessage = plain_message (now rt) system (JStr text) (localeTime rt)
                     in Inr (s1\<lparr>messages := messages s1 @ [confirmMessage]\<rparr>)))
          else
            (case template [Inr (js ''Repository validation failed: ''),
                            toStr rt (field validation (js ''error''))] of
               Inl err \<Rightarrow> Inl (err, s)
             | Inr banner \<Rightarrow>
                 (let s1 = s\<lparr>error := Some banner\<rparr>
                  in case template [Inr ([0x274C] @ js '' Git repository validation failed: ''),
                                    toStr rt (field validation (js ''error''))] of
                       Inl err \<Rightarrow> Inl (err, s1)
                     | Inr text \<Rightarrow>
                         (let errorMessage = plain_message (now rt) error_type (JStr text)
                                (localeTime rt)
                          in Inr (s1\<lparr>messages := messages s1 @ [errorMessage]\<rparr>)))))"

text \<open>The \<open>else\<close> branch after \<open>validateDirectory\<close> has returned.\<close>

definition directory_validated ::
  "runtime \<Rightarrow> jsstring \<Rightarrow> jsval \<Rightarrow> state \<Rightarrow> (js_error \<times> state) + state" where
  "directory_validated rt newPath validation s =
     (case getProp rt validation (js ''valid'') of
        Inl err \<Rightarrow> Inl (err, s)
      | Inr valid \<Rightarrow>
          if truthy valid then
            (let s1 = s\<lparr>workingDirectory := newPath, error := None\<rparr>
             in case (if field validation (js ''type'') = JStr (js ''git_repository'')
                      then template
                        [Inr ([0x2705] @ js '' Git repository connected: ''), Inr newPath,
                         Inr ([0x0A, 0xD83D, 0xDCCA] @ js '' ''),
                         toStr rt (or_zero (field validation (js ''code_files''))),
                         Inr (js '' code files, ''),
                         toStr rt (or_zero (field validation (js ''total_files''))),
                         Inr (js '' total files'')]
                      else template
                        [Inr ([0x2705] @ js '' Working directory changed to: ''), Inr newPath,
                         Inr ([0x0A, 0xD83D, 0xDCC1] @ js '' ''),
                         toStr rt (field validation (js ''fileCount'')),
                         Inr (js '' files, ''),
                         toStr rt (field validation (js ''dirCount'')),
                         Inr (js '' directories found'')]) of
                  Inl err \<Rightarrow> Inl (err, s1)
                | Inr text \<Rightarrow>
                    (let confirmMessage = plain_message (now rt) system (JStr text) (localeTime rt)
                     in Inr (s1\<lparr>messages := messages s1 @ [confirmMessage]\<rparr>)))
          else
            (case template [Inr (js ''Invalid directory: ''),
                            toStr rt (field validation (js ''error''))] of
               Inl err \<Rightarrow> Inl (err, s)
             | Inr banner \<Rightarrow>
                 (let s1 = s\<lparr>error := Some banner\<rparr>
                  in case template [Inr ([0x274C] @ js '' Directory validation failed: ''),
                                    toStr rt (field validation (js ''error''))] of
                       Inl err \<Rightarrow> Inl (err, s1)
                     | Inr text \<Rightarrow>
                         (let errorMessage = plain_message (now rt) error_type (JStr text)
                                (localeTime rt)
                          in Inr (s1\<lparr>messages := messages s1 @ [errorMessage]\<rparr>)))))"

text \<open>
  The \<open>try\<close> block from the \<open>await\<close> on; \<open>r\<close> is how the awaited call settled
  (\<open>Inl\<close>: it rejected).
\<close>

definition handleDirectoryChange_try ::
  "runtime \<Rightarrow> jsstring \<Rightarrow> js_error + jsval \<Rightarrow> state \<Rightarrow> (js_error \<times> state) + state" where
  "handleDirectoryChange_try rt newPath r s =
     (case r of
        Inl err \<Rightarrow> Inl (err, s)
      | Inr validation \<Rightarrow>
          if isGitUrl newPath then repository_validated rt newPath validation s
          else directory_validated rt newPath validation s)"

text \<open>The handler from the \<open>await\<close> on: \<open>try\<close>, \<open>catch\<close>, \<open>finally\<close>.\<close>

definition handleDirectoryChange_resume ::
  "runtime \<Rightarrow> jsstring \<Rightarrow> js_error + jsval \<Rightarrow> state \<Rightarrow> state" where
  "handleDirectoryChange_resume rt newPath r s =
     (let s1 = (case handleDirectoryChange_try rt newPath r s of
                  Inl (err, s') \<Rightarrow> s'\<lparr>error := Some (js ''Failed to validate: '' @ message err)\<rparr>
                | Inr s' \<Rightarrow> s')
      in s1\<lparr>isTyping := False\<rparr>)"

text \<open>The whole handler, when nothing else happens while it awaits.\<close>

definition handleDirectoryChange :: "jsstring option \<Rightarrow> runtime \<Rightarrow> network \<Rightarrow> state \<Rightarrow> state" where
  "handleDirectoryChange answer rt fetch s =
     (case handleDirectoryChange_begin answer s of
        (s1, Some (ValidateRepository newPath)) \<Rightarrow>
          handleDirectoryChange_resume rt newPath (validateRepository fetch newPath) s1
      | (s1, Some (ValidateDirectory newPath)) \<Rightarrow>
          handleDirectoryChange_resume rt newPath (validateDirectory fetch newPath) s1
      | (s1, _) \<Rightarrow> s1)"

subsection \<open>The other handlers and the view's gates\<close>

definition handleSlideUp :: "state \<Rightarrow> state" where
  "handleSlideUp s = s\<lparr>showCover := False\<rparr>"

definition clearError :: "state \<Rightarrow> state" where
  "clearError s = s\<lparr>error := None\<rparr>"

text \<open>\<open>disabled={isTyping}\<close> on the Change button, whose \<open>onClick\<close> is \<open>handleDirectoryChange\<close>.\<close>

definition changeButton_disabled :: "state \<Rightarrow> bool" where
  "changeButton_disabled s = isTyping s"

text \<open>A click on the Change button: a disabled button runs no handler.\<close>

definition click_change :: "jsstring option \<Rightarrow> state \<Rightarrow> state \<times> api_call option" where
  "click_change answer s =
     (if changeButton_disabled s then (s, None) else handleDirectoryChange_begin answer s)"

section \<open>The controller as an event system\<close>

text \<open>
  The browser runs one handler at a time and a handler gives way at its \<open>await\<close>, so
  a run of the application is a sequence of events: a form submission, a click on the
  Change button, the settling of an awaited call, a health poll, and the handlers that
  set one state variable. \<open>inflight\<close> lists the calls made and not yet settled.
\<close>

datatype event =
    Submit runtime
  | ClickChange "jsstring option"
  | Settle nat runtime network
  | HealthPoll network
  | ClearError
  | SlideUp
  | SetInputMessage jsstring
  | ToggleVerbose

record system =
  ctrl :: state
  inflight :: "api_call list"

fun resume_call :: "runtime \<Rightarrow> network \<Rightarrow> api_call \<Rightarrow> state \<Rightarrow> state" where
  "resume_call rt fetch (SendPrompt p wd v) s =
     handleSendMessage_resume rt (sendPrompt rt fetch p wd v) s"
| "resume_call rt fetch (ValidateRepository newPath) s =
     handleDirectoryChange_resume rt newPath (validateRepository fetch newPath) s"
| "resume_call rt fetch (ValidateDirectory newPath) s =
     handleDirectoryChange_resume rt newPath (validateDirectory fetch newPath) s"

definition started :: "state \<times> api_call option \<Rightarrow> system \<Rightarrow> system" where
  "started r sys =
     \<lparr>ctrl = fst r, inflight = inflight sys @ (case snd r of None \<Rightarrow> [] | Some c \<Rightarrow> [c])\<rparr>"

fun step :: "event \<Rightarrow> system \<Rightarrow> system" where
  "step (Submit rt) sys = started (handleSendMessage_begin rt (ctrl sys)) sys"
| "step (ClickChange answer) sys = started (click_change answer (ctrl sys)) sys"
| "step (Settle i rt fetch) sys =
     (if i < length (inflight sys)
      then \<lparr>ctrl = resume_call rt fetch (inflight sys ! i) (ctrl sys),
            inflight = take i (inflight sys) @ drop (Suc i) (inflight sys)\<rparr>
      else sys)"
| "step (HealthPoll fetch) sys = sys\<lparr>ctrl := checkHealth fetch (ctrl sys)\<rparr>"
| "step ClearError sys = sys\<lparr>ctrl := clearError (ctrl sys)\<rparr>"
| "step SlideUp sys = sys\<lparr>ctrl := handleSlideUp (ctrl sys)\<rparr>"
| "step (SetInputMessage text) sys = sys\<lparr>ctrl := (ctrl sys)\<lparr>inputMessage := text\<rparr>\<rparr>"
| "step ToggleVerbose sys = sys\<lparr>ctrl := (ctrl sys)\<lparr>verboseMode := \<not> verboseMode (ctrl sys)\<rparr>\<rparr>"

fun run :: "event list \<Rightarrow> system \<Rightarrow> system" where
  "run [] sys = sys"
| "run (ev # evs) sys = run evs (step ev sys)"

definition initial_system :: "runtime \<Rightarrow> system" where
  "initial_system rt = \<lparr>ctrl = initial_state rt, inflight = []\<rparr>"

section \<open>Properties stated by the specification\<close>

text \<open>
  The classification of a new target in the specification's words: a Git reference
  contains \<open>github.com\<close>, \<open>gitlab.com\<close> or \<open>.git\<close>, or starts with \<open>http://\<close> or
  \<open>https://\<close>.
\<close>

definition git_reference :: "jsstring \<Rightarrow> bool" where
  "git_reference newValue =
     (sublist (js ''github.com'') newValue \<or> sublist (js ''gitlab.com'') newValue
      \<or> sublist (js ''.git'') newValue \<or> prefix (js ''http://'') newValue
      \<or> prefix (js ''https://'') newValue)"

text \<open>
  Single flight, in the specification's words: at most one request is in flight, and the
  pending flag is set exactly while one is.
\<close>

definition single_flight :: "system \<Rightarrow> bool" where
  "single_flight sys =
     (length (inflight sys) \<le> 1 \<and> isTyping (ctrl sys) = (inflight sys \<noteq> []))"

section \<open>Networks and inputs for the examples\<close>

definition rejecting :: "js_error \<Rightarrow> network" where
  "rejecting e req = Inl e"

definition responding :: "http_response \<Rightarrow> network" where
  "responding r req = Inr r"

definition example_runtime :: runtime where
  "example_runtime =
     \<lparr>now = 1700000000000, localeTime = js ''10:15:00 AM'',
      typeErrorMessage = js ''Cannot read properties of null''\<rparr>"

text \<open>A state in which a prompt can be submitted.\<close>

definition asking_state :: state where
  "asking_state = (initial_state example_runtime)\<lparr>inputMessage := js ''explain main''\<rparr>"

text \<open>A state in which a request is in flight.\<close>

definition busy_state :: state where
  "busy_state = (initial_state example_runtime)\<lparr>isTyping := True\<rparr>"

text \<open>Responses of the backend: a failure with a message, one without, a success.\<close>

definition failed_response :: http_response where
  "failed_response = \<lparr>status = 500, json = Inr (JObj [(js ''error'', JStr (js ''boom''))])\<rparr>"

definition unavailable_response :: http_response where
  "unavailable_response = \<lparr>status = 503, json = Inr (JObj [])\<rparr>"

definition success_body :: jsval where
  "success_body =
     JObj [(js ''success'', JBool True),
           (js ''finalResponse'', JStr (js ''It adds two numbers.'')),
           (js ''functionCalls'', JArr [JObj [(js ''name'', JStr (js ''get_file_content''))]]),
           (js ''totalIterations'', JNum (Number False (js ''2'')))]"

definition success_response :: http_response where
  "success_response = \<lparr>status = 200, json = Inr success_body\<rparr>"

definition boom_body :: jsval where
  "boom_body = JObj [(js ''success'', JBool False), (js ''error'', JStr (js ''boom''))]"

definition boom_response :: http_response where
  "boom_response = \<lparr>status = 200, json = Inr boom_body\<rparr>"

text \<open>A success whose second function call is \<open>null\<close>.\<close>

definition malformed_body :: jsval where
  "malformed_body =
     JObj [(js ''success'', JBool True),
           (js ''finalResponse'', JStr (js ''Done.'')),
           (js ''functionCalls'', JArr [JObj [(js ''name'', JStr (js ''read''))], JNull])]"

definition malformed_response :: http_response where
  "malformed_response = \<lparr>status = 200, json = Inr malformed_body\<rparr>"

text \<open>A failure whose body is \<open>null\<close>.\<close>

definition unreadable_response :: http_response where
  "unreadable_response = \<lparr>status = 502, json = Inr JNull\<rparr>"

section \<open>String operations against their specification\<close>

lemma startsWith_prefix: "startsWith s p \<longleftrightarrow> prefix p s"
  by (induction s p rule: startsWith.induct) auto

lemma includes_str_sublist: "includes_str s p \<longleftrightarrow> sublist p s"
proof (induction s)
  case Nil
  then show ?case by simp
next
  case (Cons c cs)
  then show ?case by (simp add: startsWith_prefix sublist_Cons_right)
qed

lemma dropWhile_all_Nil:
  assumes "\<forall>c\<in>set (dropWhile P s). P c"
  shows "dropWhile P s = []"
proof (cases "dropWhile P s")
  case Nil
  then show ?thesis .
next
  case (Cons x xs)
  then have "\<not> P x" by (simp add: dropWhile_eq_Cons_conv)
  moreover have "P x" using assms Cons by simp
  ultimately show ?thesis by simp
qed

lemma trim_empty_iff: "trim s = [] \<longleftrightarrow> (\<forall>c\<in>set s. isWhiteSpace c)"
proof
  assume "trim s = []"
  then have "\<forall>c\<in>set (dropWhile isWhiteSpace s). isWhiteSpace c"
    by (simp add: trim_def dropWhile_eq_Nil_conv)
  then have "dropWhile isWhiteSpace s = []" by (rule dropWhile_all_Nil)
  then show "\<forall>c\<in>set s. isWhiteSpace c" by (simp add: dropWhile_eq_Nil_conv)
next
  assume "\<forall>c\<in>set s. isWhiteSpace c"
  then have d: "dropWhile isWhiteSpace s = []" by (simp add: dropWhile_eq_Nil_conv)
  show "trim s = []" unfolding trim_def d by simp
qed

section \<open>The two halves of the handlers\<close>

lemma resume_send_idle: "isTyping (handleSendMessage_resume rt r s) = False"
  by (simp add: handleSendMessage_resume_def Let_def)

lemma resume_change_idle: "isTyping (handleDirectoryChange_resume rt p r s) = False"
  by (simp add: handleDirectoryChange_resume_def Let_def)

lemma try_send_messages:
  assumes "handleSendMessage_try rt r s = Inr s'"
  shows "\<exists>m. s' = s\<lparr>messages := messages s @ [m]\<rparr>"
  using assms
  by (auto simp: handleSendMessage_try_def Let_def simp del: template.simps toStr.simps
      split: sum.splits if_splits)

lemma resume_send_messages:
  "\<exists>m. messages (handleSendMessage_resume rt r s) = messages s @ [m]"
proof (cases "handleSendMessage_try rt r s")
  case (Inl err)
  then show ?thesis
    by (simp add: handleSendMessage_resume_def handleSendMessage_catch_def Let_def)
next
  case (Inr s')
  from try_send_messages [OF this] obtain m where "s' = s\<lparr>messages := messages s @ [m]\<rparr>" ..
  with Inr show ?thesis by (simp add: handleSendMessage_resume_def)
qed

lemma repository_validated_messages:
  "(repository_validated rt p v s = Inr s' \<longrightarrow> (\<exists>m. messages s' = messages s @ [m]))
   \<and> (repository_validated rt p v s = Inl (err, s') \<longrightarrow> messages s' = messages s)"
  by (auto simp: repository_validated_def Let_def simp del: template.simps toStr.simps
      split: sum.splits if_splits)

lemma directory_validated_messages:
  "(directory_validated rt p v s = Inr s' \<longrightarrow> (\<exists>m. messages s' = messages s @ [m]))
   \<and> (directory_validated rt p v s = Inl (err, s') \<longrightarrow> messages s' = messages s)"
  by (auto simp: directory_validated_def Let_def simp del: template.simps toStr.simps
      split: sum.splits if_splits)

lemma try_change_messages:
  "(handleDirectoryChange_try rt p r s = Inr s' \<longrightarrow> (\<exists>m. messages s' = messages s @ [m]))
   \<and> (handleDirectoryChange_try rt p r s = Inl (err, s') \<longrightarrow> messages s' = messages s)"
  using repository_validated_messages [of rt p _ s s' err]
    directory_validated_messages [of rt p _ s s' err]
  by (auto simp: handleDirectoryChange_try_def split: sum.splits if_splits)

lemma resume_change_messages:
  "prefix (messages s) (messages (handleDirectoryChange_resume rt p r s))"
proof (cases "handleDirectoryChange_try rt p r s")
  case (Inl a)
  obtain err s' where a: "a = (err, s')" by (cases a)
  with Inl try_change_messages [of rt p r s s' err] have "messages s' = messages s" by simp
  with Inl a show ?thesis by (simp add: handleDirectoryChange_resume_def)
next
  case (Inr s')
  with try_change_messages [of rt p r s s'] have "\<exists>m. messages s' = messages s @ [m]" by simp
  with Inr show ?thesis by (auto simp: handleDirectoryChange_resume_def)
qed

lemma map_names_defined:
  "list_all (\<lambda>fc. \<not> nullish fc) fcs
     \<Longrightarrow> map_names rt fcs = Inr (map (\<lambda>fc. field fc (js ''name'')) fcs)"
  by (induction fcs) (simp_all add: getProp_def)

lemma map_names_raises:
  "\<not> list_all (\<lambda>fc. \<not> nullish fc) fcs \<Longrightarrow> map_names rt fcs = Inl (Error (typeErrorMessage rt))"
  by (induction fcs) (auto simp add: getProp_def split: sum.splits)

lemma function_call_names_defined:
  assumes "nullish v \<or> (\<exists>fcs. v = JArr fcs \<and> list_all (\<lambda>fc. \<not> nullish fc) fcs)"
  shows "function_call_names rt v
    = Inr (case v of JArr fcs \<Rightarrow> map (\<lambda>fc. field fc (js ''name'')) fcs | _ \<Rightarrow> [])"
  using assms by (cases v) (auto simp add: nullish_def map_names_defined)

lemma function_call_names_raises:
  assumes "\<not> (nullish v \<or> (\<exists>fcs. v = JArr fcs \<and> list_all (\<lambda>fc. \<not> nullish fc) fcs))"
  shows "function_call_names rt v = Inl (Error (typeErrorMessage rt))"
  using assms by (cases v) (auto simp add: nullish_def map_names_raises)

lemma run_append: "run (evs @ evs') sys = run evs' (run evs sys)"
  by (induction evs arbitrary: sys) simp_all


lemma isGitUrl_git_reference: "isGitUrl p = git_reference p"
  by (auto simp add: isGitUrl_def git_reference_def includes_str_sublist startsWith_prefix)

lemma begin_send_messages:
  "prefix (messages s) (messages (fst (handleSendMessage_begin rt s)))"
  by (simp add: handleSendMessage_begin_def Let_def)

lemma begin_change_messages:
  "messages (fst (handleDirectoryChange_begin answer s)) = messages s"
  by (simp add: handleDirectoryChange_begin_def split: option.splits)

lemma click_change_messages:
  "messages (fst (click_change answer s)) = messages s"
  by (simp add: click_change_def begin_change_messages)

lemma checkHealth_messages: "messages (checkHealth fetch s) = messages s"
  by (simp add: checkHealth_def checkHealth_resume_def Let_def split: sum.splits)

lemma resume_send_prefix:
  "prefix (messages s) (messages (handleSendMessage_resume rt r s))"
  using resume_send_messages [of rt r s] by auto

lemma resume_call_messages:
  "prefix (messages s) (messages (resume_call rt fetch c s))"
  by (cases c) (simp_all add: resume_send_prefix resume_change_messages)

lemma step_messages:
  "prefix (messages (ctrl sys)) (messages (ctrl (step ev sys)))"
  by (cases ev)
    (simp_all add: started_def begin_send_messages click_change_messages resume_call_messages
      checkHealth_messages clearError_def handleSlideUp_def)

lemma run_messages:
  "prefix (messages (ctrl sys)) (messages (ctrl (run evs sys)))"
proof (induction evs arbitrary: sys)
  case Nil
  show ?case by simp
next
  case (Cons ev evs)
  have "prefix (messages (ctrl sys)) (messages (ctrl (step ev sys)))"
    by (rule step_messages)
  also have "prefix \<dots> (messages (ctrl (run evs (step ev sys))))"
    by (rule Cons.IH)
  finally show ?case by simp
qed

lemma handleSendMessage_messages:
  "prefix (messages s) (messages (handleSendMessage rt1 rt2 fetch s))"
proof (cases "trim (inputMessage s) = [] \<or> isTyping s")
  case True
  then show ?thesis by (auto simp add: handleSendMessage_def handleSendMessage_begin_def)
next
  case False
  let ?s1 = "fst (handleSendMessage_begin rt1 s)"
  from False have "handleSendMessage rt1 rt2 fetch s
      = handleSendMessage_resume rt2
          (sendPrompt rt2 fetch (inputMessage s) (workingDirectory s) (verboseMode s)) ?s1"
    by (simp add: handleSendMessage_def handleSendMessage_begin_def Let_def)
  moreover have "prefix (messages s) (messages ?s1)" by (rule begin_send_messages)
  moreover have "prefix (messages ?s1) (messages (handleSendMessage_resume rt2
          (sendPrompt rt2 fetch (inputMessage s) (workingDirectory s) (verboseMode s)) ?s1))"
    by (rule resume_send_prefix)
  ultimately show ?thesis by (metis prefix_order.trans)
qed

lemma handleDirectoryChange_messages:
  "prefix (messages s) (messages (handleDirectoryChange answer rt fetch s))"
proof (cases "handleDirectoryChange_begin answer s")
  case (Pair s1 c)
  then have m: "messages s1 = messages s"
    using begin_change_messages [of answer s] by simp
  show ?thesis
  proof (cases c)
    case None
    with Pair m show ?thesis by (simp add: handleDirectoryChange_def)
  next
    case (Some call)
    with Pair m show ?thesis
      using resume_change_messages [of s1]
      by (cases call) (simp_all add: handleDirectoryChange_def)
  qed
qed

section \<open>Single flight\<close>

text \<open>
  In every run of the application from its initial state at most one request is in
  flight, and \<open>isTyping\<close> is set exactly while one is.
\<close>

lemma resume_call_idle: "isTyping (resume_call rt fetch c s) = False"
  by (cases c) (simp_all add: resume_send_idle resume_change_idle)

lemma checkHealth_isTyping: "isTyping (checkHealth fetch s) = isTyping s"
  by (simp add: checkHealth_def checkHealth_resume_def Let_def split: sum.splits)

lemma step_single_flight:
  assumes "single_flight sys"
  shows "single_flight (step ev sys)"
proof (cases ev)
  case (Submit rt)
  with assms show ?thesis
    by (auto simp add: single_flight_def started_def handleSendMessage_begin_def Let_def)
next
  case (ClickChange answer)
  with assms show ?thesis
    by (auto simp add: single_flight_def started_def click_change_def changeButton_disabled_def
        handleDirectoryChange_begin_def split: option.splits)
next
  case (Settle i rt fetch)
  show ?thesis
  proof (cases "i < length (inflight sys)")
    case True
    with assms have "i = 0" "length (inflight sys) = 1"
      by (auto simp add: single_flight_def)
    with Settle True show ?thesis
      by (simp add: single_flight_def resume_call_idle)
  next
    case False
    with Settle assms show ?thesis by simp
  qed
next
  case (HealthPoll fetch)
  with assms show ?thesis by (simp add: single_flight_def checkHealth_isTyping)
qed (use assms in \<open>simp_all add: single_flight_def clearError_def handleSlideUp_def\<close>)

lemma run_single_flight:
  "single_flight sys \<Longrightarrow> single_flight (run evs sys)"
  by (induction evs arbitrary: sys) (simp_all add: step_single_flight)

theorem reachable_single_flight:
  "single_flight (run evs (initial_system rt))"
  by (rule run_single_flight) (simp add: single_flight_def initial_system_def initial_state_def)


lemma example_run:
  "run [SetInputMessage (js ''explain main''), Submit example_runtime]
          (initial_system example_runtime)
   = \<lparr>ctrl = (initial_state example_runtime)
          \<lparr>error := None,
           messages := messages (initial_state example_runtime)
             @ [plain_message (now example_runtime) user (JStr (js ''explain main''))
                  (localeTime example_runtime)],
           inputMessage := [], isTyping := True\<rparr>,
       inflight = [SendPrompt (js ''explain main'')
                     (js ''https://github.com/microsoft/calculator'') False]\<rparr>"
  by (simp add: initial_system_def initial_state_def started_def handleSendMessage_begin_def
      trim_def isWhiteSpace_def js_def Let_def)

section \<open>The API client\<close>

text \<open>
  C1, as the claim states it, fails: \<open>sendPrompt\<close> catches, logs and throws again.
  When the network is down, and when the backend answers 500, the exception reaches
  the caller.
\<close>

theorem sendPrompt_throws_counterexample:
  "sendPrompt example_runtime (rejecting (Error (js ''Failed to fetch''))) (js ''hi'')
     (js ''/home/user/project'') False = Inl (Error (js ''Failed to fetch''))
   \<and> sendPrompt example_runtime (responding failed_response)
       (js ''hi'') (js ''/home/user/project'') False = Inl (Error (js ''boom''))"
  by (simp add: sendPrompt_def rejecting_def responding_def failed_response_def ok_def
      getProp_def nullish_def or_else_def js_def)

text \<open>
  C1, amended: \<open>validateDirectory\<close>, \<open>validateRepository\<close> and \<open>checkBackendHealth\<close>
  return a value however the transport fails. \<open>sendPrompt\<close> does not: it throws to its
  caller on a network error, on an unparsable body and on every non-2xx status. On a
  non-2xx status the exception is the TypeError of reading \<open>data.error\<close> when the body
  is \<open>null\<close>; an Error whose message is the body's \<open>error\<close> converted to a string when
  that is truthy (a non-empty string is its own conversion), or the TypeError of the
  conversion when it fails; and an Error with the message \<open>HTTP error! status: N\<close> when
  the body is not \<open>null\<close> and has no truthy \<open>error\<close>. On a 2xx status it returns the
  parsed body. Its caller \<open>handleSendMessage\<close> catches the exception: it appends an
  error message, sets the error banner and clears the pending flag.
\<close>

theorem api_client_failures:
  "\<not> isl (validateDirectory fetch path) \<and> \<not> isl (validateRepository fetch path)
   \<and> \<not> isl (checkBackendHealth fetch)
   \<and> sendPrompt rt (rejecting e) p wd v = Inl e
   \<and> sendPrompt rt (responding \<lparr>status = st, json = Inl e\<rparr>) p wd v = Inl e
   \<and> (\<not> ok r \<longrightarrow> isl (sendPrompt rt (responding r) p wd v))
   \<and> (\<not> ok r \<and> json r = Inr data \<and> nullish data
        \<longrightarrow> sendPrompt rt (responding r) p wd v = Inl (Error (typeErrorMessage rt)))
   \<and> (\<not> ok r \<and> json r = Inr data \<and> truthy (field data (js ''error''))
        \<longrightarrow> sendPrompt rt (responding r) p wd v
            = (case toStr rt (field data (js ''error'')) of
                 Inl err \<Rightarrow> Inl err
               | Inr msg \<Rightarrow> Inl (Error msg)))
   \<and> (\<not> ok r \<and> json r = Inr data \<and> field data (js ''error'') = JStr m \<and> m \<noteq> []
        \<longrightarrow> sendPrompt rt (responding r) p wd v = Inl (Error m))
   \<and> (\<not> ok r \<and> json r = Inr data \<and> \<not> nullish data \<and> \<not> truthy (field data (js ''error''))
        \<longrightarrow> sendPrompt rt (responding r) p wd v
            = Inl (Error (js ''HTTP error! status: '' @ digits (status r))))
   \<and> (ok r \<and> json r = Inr data \<longrightarrow> sendPrompt rt (responding r) p wd v = Inr data)
   \<and> handleSendMessage_resume rt (Inl e) s
       = s\<lparr>messages := messages s @ [plain_message (now rt + 1) error_type
               (JStr (js ''Failed to process request: '' @ message e)) (localeTime rt)],
            error := Some (message e), isTyping := False\<rparr>"
proof -
  have a: "\<not> isl (validateDirectory fetch path)"
    by (simp add: validateDirectory_def split: sum.splits)
  have b: "\<not> isl (validateRepository fetch path)"
    by (simp add: validateRepository_def split: sum.splits)
  have c: "\<not> isl (checkBackendHealth fetch)"
    by (simp add: checkBackendHealth_def split: sum.splits)
  have d: "sendPrompt rt (rejecting e) p wd v = Inl e"
    by (simp add: sendPrompt_def rejecting_def)
  have e: "sendPrompt rt (responding \<lparr>status = st, json = Inl e\<rparr>) p wd v = Inl e"
    by (simp add: sendPrompt_def responding_def)
  have f: "\<not> ok r \<longrightarrow> isl (sendPrompt rt (responding r) p wd v)"
    by (simp add: sendPrompt_def responding_def del: toStr.simps split: sum.splits)
  have n: "\<not> ok r \<and> json r = Inr data \<and> nullish data
        \<longrightarrow> sendPrompt rt (responding r) p wd v = Inl (Error (typeErrorMessage rt))"
    by (simp add: sendPrompt_def responding_def getProp_def)
  have t: "truthy (field data (js ''error'')) \<Longrightarrow> \<not> nullish data"
    by (auto simp add: nullish_def)
  have g: "\<not> ok r \<and> json r = Inr data \<and> truthy (field data (js ''error''))
        \<longrightarrow> sendPrompt rt (responding r) p wd v
            = (case toStr rt (field data (js ''error'')) of
                 Inl err \<Rightarrow> Inl err
               | Inr msg \<Rightarrow> Inl (Error msg))"
    using t by (simp add: sendPrompt_def responding_def getProp_def or_else_def del: toStr.simps)
  have g': "\<not> ok r \<and> json r = Inr data \<and> field data (js ''error'') = JStr m \<and> m \<noteq> []
        \<longrightarrow> sendPrompt rt (responding r) p wd v = Inl (Error m)"
    using g by auto
  have h: "\<not> ok r \<and> json r = Inr data \<and> \<not> nullish data \<and> \<not> truthy (field data (js ''error''))
        \<longrightarrow> sendPrompt rt (responding r) p wd v
            = Inl (Error (js ''HTTP error! status: '' @ digits (status r)))"
    by (simp add: sendPrompt_def responding_def getProp_def or_else_def)
  have i: "ok r \<and> json r = Inr data \<longrightarrow> sendPrompt rt (responding r) p wd v = Inr data"
    by (simp add: sendPrompt_def responding_def)
  have j: "handleSendMessage_resume rt (Inl e) s
       = s\<lparr>messages := messages s @ [plain_message (now rt + 1) error_type
               (JStr (js ''Failed to process request: '' @ message e)) (localeTime rt)],
            error := Some (message e), isTyping := False\<rparr>"
    by (simp add: handleSendMessage_resume_def handleSendMessage_try_def
        handleSendMessage_catch_def Let_def)
  from a b c d e f n g g' h i j show ?thesis by blast
qed

theorem api_client_failures_witness:
  "\<not> ok failed_response
   \<and> json failed_response = Inr (JObj [(js ''error'', JStr (js ''boom''))])
   \<and> truthy (field (JObj [(js ''error'', JStr (js ''boom''))]) (js ''error''))
   \<and> field (JObj [(js ''error'', JStr (js ''boom''))]) (js ''error'') = JStr (js ''boom'')
   \<and> js ''boom'' \<noteq> []
   \<and> sendPrompt example_runtime (responding failed_response) (js ''hi'') (js ''/tmp'') False
       = Inl (Error (js ''boom''))
   \<and> \<not> ok unreadable_response \<and> json unreadable_response = Inr JNull \<and> nullish JNull
   \<and> sendPrompt example_runtime (responding unreadable_response) (js ''hi'') (js ''/tmp'') False
       = Inl (Error (typeErrorMessage example_runtime))
   \<and> \<not> ok unavailable_response \<and> json unavailable_response = Inr (JObj [])
   \<and> \<not> nullish (JObj []) \<and> \<not> truthy (field (JObj []) (js ''error''))
   \<and> sendPrompt example_runtime (responding unavailable_response) (js ''hi'') (js ''/tmp'') False
       = Inl (Error (js ''HTTP error! status: 503''))
   \<and> ok boom_response
   \<and> sendPrompt example_runtime (responding boom_response) (js ''hi'') (js ''/tmp'') False
       = json boom_response"
  using api_client_failures [where rt = example_runtime and p = "js ''hi''" and wd = "js ''/tmp''"
      and v = False and r = failed_response
      and data = "JObj [(js ''error'', JStr (js ''boom''))]" and m = "js ''boom''"]
    api_client_failures [where rt = example_runtime and p = "js ''hi''" and wd = "js ''/tmp''"
      and v = False and r = unreadable_response and data = JNull]
    api_client_failures [where rt = example_runtime and p = "js ''hi''" and wd = "js ''/tmp''"
      and v = False and r = unavailable_response and data = "JObj []"]
    api_client_failures [where rt = example_runtime and p = "js ''hi''" and wd = "js ''/tmp''"
      and v = False and r = boom_response and data = boom_body]
  by (simp add: failed_response_def unavailable_response_def unreadable_response_def
      boom_response_def ok_def nullish_def digits.simps js_def)

text \<open>
  C10: \<open>validateDirectory\<close> and \<open>validateRepository\<close> never look at the status. Whatever
  the status, a body that parses is returned as it is; a rejected \<open>fetch\<close> and a body
  that does not parse give \<open>{valid: false, error: message}\<close>.
\<close>

theorem validation_ignores_status:
  "(fetch \<lparr>url = API_BASE_URL @ js ''/validate-directory'', request_method = POST,
            body = JObj [(js ''directory'', JStr path)]\<rparr> = Inr \<lparr>status = st, json = Inr data\<rparr>
      \<longrightarrow> validateDirectory fetch path = Inr data)
   \<and> (fetch \<lparr>url = API_BASE_URL @ js ''/validate-repo'', request_method = POST,
            body = JObj [(js ''repo_url'', JStr path)]\<rparr> = Inr \<lparr>status = st, json = Inr data\<rparr>
      \<longrightarrow> validateRepository fetch path = Inr data)
   \<and> validateDirectory (rejecting e) path
       = Inr (JObj [(js ''valid'', JBool False), (js ''error'', JStr (message e))])
   \<and> validateRepository (rejecting e) path
       = Inr (JObj [(js ''valid'', JBool False), (js ''error'', JStr (message e))])
   \<and> validateDirectory (responding \<lparr>status = st, json = Inl e\<rparr>) path
       = Inr (JObj [(js ''valid'', JBool False), (js ''error'', JStr (message e))])
   \<and> validateRepository (responding \<lparr>status = st, json = Inl e\<rparr>) path
       = Inr (JObj [(js ''valid'', JBool False), (js ''error'', JStr (message e))])"
  by (simp add: validateDirectory_def validateRepository_def rejecting_def responding_def)

theorem validation_ignores_status_witness:
  "validateDirectory
     (responding \<lparr>status = 500, json = Inr (JObj [(js ''detail'', JStr (js ''crashed''))])\<rparr>)
     (js ''/home/user/project'') = Inr (JObj [(js ''detail'', JStr (js ''crashed''))])
   \<and> validateRepository (responding \<lparr>status = 404, json = Inr JNull\<rparr>)
     (js ''https://github.com/foo/bar'') = Inr JNull"
  using validation_ignores_status
      [of "responding \<lparr>status = 500, json = Inr (JObj [(js ''detail'', JStr (js ''crashed''))])\<rparr>"
        "js ''/home/user/project''" 500 "JObj [(js ''detail'', JStr (js ''crashed''))]"]
    validation_ignores_status [of "responding \<lparr>status = 404, json = Inr JNull\<rparr>"
      "js ''https://github.com/foo/bar''" 404 JNull]
  by (simp add: responding_def)

section \<open>The controller\<close>

text \<open>
  C8: \<open>clearError\<close> sets the error to none and leaves the history, the target, the
  health flags, the pending flag and every other state variable as they were.
\<close>

theorem clearError_frame:
  "error (clearError s) = None \<and> messages (clearError s) = messages s
   \<and> workingDirectory (clearError s) = workingDirectory s
   \<and> backendStatus (clearError s) = backendStatus s
   \<and> isTyping (clearError s) = isTyping s
   \<and> inputMessage (clearError s) = inputMessage s
   \<and> verboseMode (clearError s) = verboseMode s
   \<and> showCover (clearError s) = showCover s
   \<and> clearError s = s\<lparr>error := None\<rparr>"
  by (simp add: clearError_def)

text \<open>
  C2: while a request is in flight, invoking \<open>changeTarget\<close> dispatches no validation
  request and changes no state, under the same flag as \<open>submitPrompt\<close>. In every state
  with \<open>isTyping\<close> set, a click on the Change button (the one place that runs
  \<open>handleDirectoryChange\<close>) and a form submission both return the state as it was and
  make no call. In every run of the application from its initial state, whenever a
  request is in flight \<open>isTyping\<close> is set, a click on the Change button and a submission
  leave the state and the requests in flight as they were, and after the click at most
  one request is in flight.
\<close>

theorem changeTarget_single_flight:
  "(isTyping s \<longrightarrow> click_change answer s = (s, None) \<and> handleSendMessage_begin rt s = (s, None))
   \<and> (inflight (run evs (initial_system rt0)) \<noteq> [] \<longrightarrow>
        isTyping (ctrl (run evs (initial_system rt0)))
        \<and> step (ClickChange answer) (run evs (initial_system rt0)) = run evs (initial_system rt0)
        \<and> step (Submit rt) (run evs (initial_system rt0)) = run evs (initial_system rt0))
   \<and> length (inflight (run (evs @ [ClickChange answer]) (initial_system rt0))) \<le> 1"
proof -
  let ?sys = "run evs (initial_system rt0)"
  have a: "isTyping s \<longrightarrow> click_change answer s = (s, None) \<and> handleSendMessage_begin rt s = (s, None)"
    by (simp add: click_change_def changeButton_disabled_def handleSendMessage_begin_def)
  have sf: "single_flight ?sys" by (rule reachable_single_flight)
  have b: "inflight ?sys \<noteq> [] \<longrightarrow>
        isTyping (ctrl ?sys) \<and> step (ClickChange answer) ?sys = ?sys \<and> step (Submit rt) ?sys = ?sys"
  proof
    assume "inflight ?sys \<noteq> []"
    with sf have t: "isTyping (ctrl ?sys)" by (simp add: single_flight_def)
    then have "click_change answer (ctrl ?sys) = (ctrl ?sys, None)"
      and "handleSendMessage_begin rt (ctrl ?sys) = (ctrl ?sys, None)"
      by (simp_all add: click_change_def changeButton_disabled_def handleSendMessage_begin_def)
    then have "step (ClickChange answer) ?sys = ?sys" and "step (Submit rt) ?sys = ?sys"
      by (simp_all add: started_def)
    with t show "isTyping (ctrl ?sys) \<and> step (ClickChange answer) ?sys = ?sys
        \<and> step (Submit rt) ?sys = ?sys" by simp
  qed
  have "single_flight (run (evs @ [ClickChange answer]) (initial_system rt0))"
    by (rule reachable_single_flight)
  then have c: "length (inflight (run (evs @ [ClickChange answer]) (initial_system rt0))) \<le> 1"
    by (simp add: single_flight_def)
  from a b c show ?thesis by blast
qed

theorem changeTarget_single_flight_witness:
  "isTyping busy_state
   \<and> click_change (Some (js ''/home/user/project'')) busy_state = (busy_state, None)
   \<and> inflight (run [SetInputMessage (js ''explain main''), Submit example_runtime]
          (initial_system example_runtime)) \<noteq> []
   \<and> step (ClickChange (Some (js ''/home/user/project'')))
        (run [SetInputMessage (js ''explain main''), Submit example_runtime]
          (initial_system example_runtime))
       = run [SetInputMessage (js ''explain main''), Submit example_runtime]
          (initial_system example_runtime)"
proof -
  have a: "isTyping busy_state" by (simp add: busy_state_def)
  have b: "inflight (run [SetInputMessage (js ''explain main''), Submit example_runtime]
          (initial_system example_runtime)) \<noteq> []"
    unfolding example_run by simp
  from changeTarget_single_flight [where s = busy_state
      and answer = "Some (js ''/home/user/project'')"
      and evs = "[SetInputMessage (js ''explain main''), Submit example_runtime]"
      and ?rt0.0 = example_runtime] a b
  show ?thesis by blast
qed

text \<open>
  C4, as the claim states it, fails: with \<open>success\<close> truthy and a \<open>null\<close> among the
  function calls, \<open>fc.name\<close> raises inside the \<open>try\<close>, and the \<open>catch\<close> appends an
  error message, not an assistant message, and sets the error banner.
\<close>

theorem submit_malformed_success_counterexample:
  "trim (inputMessage asking_state) \<noteq> [] \<and> \<not> isTyping asking_state
   \<and> sendPrompt example_runtime (responding malformed_response) (inputMessage asking_state)
        (workingDirectory asking_state) (verboseMode asking_state) = Inr malformed_body
   \<and> truthy (field malformed_body (js ''success''))
   \<and> map msg_type (messages (handleSendMessage example_runtime example_runtime
        (responding malformed_response) asking_state)) = [ai, user, error_type]
   \<and> error (handleSendMessage example_runtime example_runtime
        (responding malformed_response) asking_state) = Some (typeErrorMessage example_runtime)"
proof -
  have a: "trim (inputMessage asking_state) \<noteq> []"
    by (simp add: asking_state_def initial_state_def trim_def isWhiteSpace_def js_def)
  have b: "\<not> isTyping asking_state"
    by (simp add: asking_state_def initial_state_def)
  have c: "sendPrompt example_runtime (responding malformed_response) (inputMessage asking_state)
        (workingDirectory asking_state) (verboseMode asking_state) = Inr malformed_body"
    by (simp add: sendPrompt_def responding_def malformed_response_def ok_def)
  have d: "truthy (field malformed_body (js ''success''))"
    by (simp add: malformed_body_def js_def)
  have e: "handleSendMessage_try example_runtime (Inr malformed_body) s
      = Inl (Error (typeErrorMessage example_runtime))" for s
    by (simp add: handleSendMessage_try_def malformed_body_def getProp_def nullish_def js_def)
  have f: "handleSendMessage_begin example_runtime asking_state
      = (asking_state\<lparr>error := None,
           messages := messages asking_state
             @ [plain_message (now example_runtime) user (JStr (inputMessage asking_state))
                  (localeTime example_runtime)],
           inputMessage := [], isTyping := True\<rparr>,
         Some (SendPrompt (inputMessage asking_state) (workingDirectory asking_state)
                 (verboseMode asking_state)))"
    using a b by (simp add: handleSendMessage_begin_def Let_def)
  have g: "map msg_type (messages asking_state) = [ai]"
    by (simp add: asking_state_def initial_state_def plain_message_def)
  have h: "map msg_type (messages (handleSendMessage example_runtime example_runtime
        (responding malformed_response) asking_state)) = [ai, user, error_type]"
    by (simp add: handleSendMessage_def f c handleSendMessage_resume_def e
        handleSendMessage_catch_def Let_def g plain_message_def)
  have i: "error (handleSendMessage example_runtime example_runtime
        (responding malformed_response) asking_state) = Some (typeErrorMessage example_runtime)"
    by (simp add: handleSendMessage_def f c handleSendMessage_resume_def e
        handleSendMessage_catch_def Let_def)
  from a b c d h i show ?thesis by simp
qed

text \<open>
  C4, amended: a prompt that is not blank, submitted when no request is in flight, for
  which \<open>sendPrompt\<close> returns a result with a truthy \<open>success\<close>. If \<open>functionCalls\<close> is
  absent, \<open>null\<close> or an array with no \<open>null\<close> entry, the history grows by exactly the
  user message and an assistant message filled from \<open>finalResponse\<close>, the names of
  \<open>functionCalls\<close>, \<open>tokenCounts\<close>, \<open>totalIterations\<close> and \<open>repositoryInfo\<close>. For any
  other \<open>functionCalls\<close> the history grows by exactly the user message and an error
  message, and the error banner is set. In both cases the history grows by exactly 2
  and the pending flag is cleared.
\<close>

theorem submit_success:
  assumes guard: "trim (inputMessage s) \<noteq> []" "\<not> isTyping s"
    and resp: "sendPrompt rt2 fetch (inputMessage s) (workingDirectory s) (verboseMode s) = Inr response"
    and succ: "truthy (field response (js ''success''))"
  shows "((nullish (field response (js ''functionCalls''))
           \<or> (\<exists>fcs. field response (js ''functionCalls'') = JArr fcs
                 \<and> list_all (\<lambda>fc. \<not> nullish fc) fcs))
          \<longrightarrow> messages (handleSendMessage rt1 rt2 fetch s)
              = messages s @
                [plain_message (now rt1) user (JStr (inputMessage s)) (localeTime rt1),
                 \<lparr>msg_id = now rt2 + 1, msg_type = ai,
                  content = field response (js ''finalResponse''),
                  timestamp = localeTime rt2,
                  functionCalls = Some (case field response (js ''functionCalls'') of
                      JArr fcs \<Rightarrow> map (\<lambda>fc. field fc (js ''name'')) fcs | _ \<Rightarrow> []),
                  tokenCount = Some (field response (js ''tokenCounts'')),
                  iterations = Some (field response (js ''totalIterations'')),
                  repositoryInfo = Some (field response (js ''repositoryInfo''))\<rparr>])
    \<and> (\<not> (nullish (field response (js ''functionCalls''))
           \<or> (\<exists>fcs. field response (js ''functionCalls'') = JArr fcs
                 \<and> list_all (\<lambda>fc. \<not> nullish fc) fcs))
          \<longrightarrow> messages (handleSendMessage rt1 rt2 fetch s)
              = messages s @
                [plain_message (now rt1) user (JStr (inputMessage s)) (localeTime rt1),
                 plain_message (now rt2 + 1) error_type
                   (JStr (js ''Failed to process request: '' @ typeErrorMessage rt2))
                   (localeTime rt2)]
            \<and> error (handleSendMessage rt1 rt2 fetch s) = Some (typeErrorMessage rt2))
    \<and> length (messages (handleSendMessage rt1 rt2 fetch s)) = length (messages s) + 2
    \<and> isTyping (handleSendMessage rt1 rt2 fetch s) = False"
proof -
  let ?fcv = "field response (js ''functionCalls'')"
  let ?shape = "nullish ?fcv \<or> (\<exists>fcs. ?fcv = JArr fcs \<and> list_all (\<lambda>fc. \<not> nullish fc) fcs)"
  let ?user = "plain_message (now rt1) user (JStr (inputMessage s)) (localeTime rt1)"
  let ?s1 = "s\<lparr>error := None, messages := messages s @ [?user],
               inputMessage := [], isTyping := True\<rparr>"
  have nn: "\<not> nullish response" using succ by (auto simp: nullish_def)
  have b: "handleSendMessage_begin rt1 s
      = (?s1, Some (SendPrompt (inputMessage s) (workingDirectory s) (verboseMode s)))"
    using guard by (simp add: handleSendMessage_begin_def Let_def)
  have r: "handleSendMessage rt1 rt2 fetch s = handleSendMessage_resume rt2 (Inr response) ?s1"
    by (simp add: handleSendMessage_def b resp)
  have good: "messages (handleSendMessage rt1 rt2 fetch s)
              = messages s @
                [?user,
                 \<lparr>msg_id = now rt2 + 1, msg_type = ai,
                  content = field response (js ''finalResponse''),
                  timestamp = localeTime rt2,
                  functionCalls = Some (case ?fcv of
                      JArr fcs \<Rightarrow> map (\<lambda>fc. field fc (js ''name'')) fcs | _ \<Rightarrow> []),
                  tokenCount = Some (field response (js ''tokenCounts'')),
                  iterations = Some (field response (js ''totalIterations'')),
                  repositoryInfo = Some (field response (js ''repositoryInfo''))\<rparr>]"
    if sh: ?shape
  proof -
    have "handleSendMessage_try rt2 (Inr response) ?s1
      = Inr (?s1\<lparr>messages := messages ?s1 @
        [\<lparr>msg_id = now rt2 + 1, msg_type = ai,
          content = field response (js ''finalResponse''),
          timestamp = localeTime rt2,
          functionCalls = Some (case ?fcv of
              JArr fcs \<Rightarrow> map (\<lambda>fc. field fc (js ''name'')) fcs | _ \<Rightarrow> []),
          tokenCount = Some (field response (js ''tokenCounts'')),
          iterations = Some (field response (js ''totalIterations'')),
          repositoryInfo = Some (field response (js ''repositoryInfo''))\<rparr>]\<rparr>)"
      using nn succ function_call_names_defined [OF sh, of rt2]
      by (simp add: handleSendMessage_try_def getProp_def Let_def)
    then show ?thesis by (simp add: r handleSendMessage_resume_def)
  qed
  have bad: "messages (handleSendMessage rt1 rt2 fetch s)
              = messages s @
                [?user,
                 plain_message (now rt2 + 1) error_type
                   (JStr (js ''Failed to process request: '' @ typeErrorMessage rt2))
                   (localeTime rt2)]
            \<and> error (handleSendMessage rt1 rt2 fetch s) = Some (typeErrorMessage rt2)"
    if sh: "\<not> ?shape"
  proof -
    have "handleSendMessage_try rt2 (Inr response) ?s1 = Inl (Error (typeErrorMessage rt2))"
      using nn succ function_call_names_raises [OF sh, of rt2]
      by (simp add: handleSendMessage_try_def getProp_def Let_def)
    then show ?thesis
      by (simp add: r handleSendMessage_resume_def handleSendMessage_catch_def Let_def)
  qed
  have len: "length (messages (handleSendMessage rt1 rt2 fetch s)) = length (messages s) + 2"
  proof (cases ?shape)
    case True
    from good [OF this] show ?thesis by simp
  next
    case False
    from bad [OF this] show ?thesis by simp
  qed
  have idle: "isTyping (handleSendMessage rt1 rt2 fetch s) = False"
    by (simp add: r resume_send_idle)
  from good bad len idle show ?thesis by blast
qed

theorem submit_success_witness:
  "trim (inputMessage asking_state) \<noteq> [] \<and> \<not> isTyping asking_state
   \<and> sendPrompt example_runtime (responding success_response) (inputMessage asking_state)
        (workingDirectory asking_state) (verboseMode asking_state) = Inr success_body
   \<and> truthy (field success_body (js ''success''))
   \<and> field success_body (js ''functionCalls'')
       = JArr [JObj [(js ''name'', JStr (js ''get_file_content''))]]
   \<and> list_all (\<lambda>fc. \<not> nullish fc) [JObj [(js ''name'', JStr (js ''get_file_content''))]]
   \<and> map msg_type (messages (handleSendMessage example_runtime example_runtime
        (responding success_response) asking_state)) = [ai, user, ai]
   \<and> map functionCalls (messages (handleSendMessage example_runtime example_runtime
        (responding success_response) asking_state))
       = [None, None, Some [JStr (js ''get_file_content'')]]
   \<and> isTyping (handleSendMessage example_runtime example_runtime
        (responding success_response) asking_state) = False
   \<and> sendPrompt example_runtime (responding malformed_response) (inputMessage asking_state)
        (workingDirectory asking_state) (verboseMode asking_state) = Inr malformed_body
   \<and> truthy (field malformed_body (js ''success''))
   \<and> field malformed_body (js ''functionCalls'')
       = JArr [JObj [(js ''name'', JStr (js ''read''))], JNull]
   \<and> \<not> list_all (\<lambda>fc. \<not> nullish fc) [JObj [(js ''name'', JStr (js ''read''))], JNull]
   \<and> map msg_type (messages (handleSendMessage example_runtime example_runtime
        (responding malformed_response) asking_state)) = [ai, user, error_type]
   \<and> length (messages (handleSendMessage example_runtime example_runtime
        (responding malformed_response) asking_state)) = 3"
proof -
  have a: "trim (inputMessage asking_state) \<noteq> []"
    by (simp add: asking_state_def initial_state_def trim_def isWhiteSpace_def js_def)
  have b: "\<not> isTyping asking_state"
    by (simp add: asking_state_def initial_state_def)
  have c: "sendPrompt example_runtime (responding success_response) (inputMessage asking_state)
        (workingDirectory asking_state) (verboseMode asking_state) = Inr success_body"
    by (simp add: sendPrompt_def responding_def success_response_def ok_def)
  have d: "truthy (field success_body (js ''success''))"
    by (simp add: success_body_def js_def)
  have e: "field success_body (js ''functionCalls'')
       = JArr [JObj [(js ''name'', JStr (js ''get_file_content''))]]"
    by (simp add: success_body_def js_def)
  have f: "list_all (\<lambda>fc. \<not> nullish fc) [JObj [(js ''name'', JStr (js ''get_file_content''))]]"
    by (simp add: nullish_def)
  have c': "sendPrompt example_runtime (responding malformed_response) (inputMessage asking_state)
        (workingDirectory asking_state) (verboseMode asking_state) = Inr malformed_body"
    by (simp add: sendPrompt_def responding_def malformed_response_def ok_def)
  have d': "truthy (field malformed_body (js ''success''))"
    by (simp add: malformed_body_def js_def)
  have e': "field malformed_body (js ''functionCalls'')
       = JArr [JObj [(js ''name'', JStr (js ''read''))], JNull]"
    by (simp add: malformed_body_def js_def)
  have f': "\<not> list_all (\<lambda>fc. \<not> nullish fc) [JObj [(js ''name'', JStr (js ''read''))], JNull]"
    by (simp add: nullish_def)
  have g: "length (messages asking_state) = 1" "map msg_type (messages asking_state) = [ai]"
    "map functionCalls (messages asking_state) = [None]"
    by (simp_all add: asking_state_def initial_state_def plain_message_def)
  have n: "field (JObj [(js ''name'', JStr (js ''get_file_content''))]) (js ''name'')
      = JStr (js ''get_file_content'')"
    by simp
  from submit_success [OF a b c d, of example_runtime]
    submit_success [OF a b c' d', of example_runtime]
    a b c d e f c' d' e' f' g n
  show ?thesis by (simp add: plain_message_def nullish_def)
qed

text \<open>
  C5: a submitted prompt for which \<open>sendPrompt\<close> returns a value-level failure with a
  non-empty error string \<open>e\<close> (as \<open>{success: false, error: "boom"}\<close>): the history
  grows by exactly the user message and an error message whose text is \<open>Error: e\<close>,
  which contains \<open>e\<close>.
\<close>

theorem submit_value_failure:
  assumes guard: "trim (inputMessage s) \<noteq> []" "\<not> isTyping s"
    and resp: "sendPrompt rt2 fetch (inputMessage s) (workingDirectory s) (verboseMode s) = Inr response"
    and fail: "\<not> truthy (field response (js ''success''))"
    and err: "field response (js ''error'') = JStr e" "e \<noteq> []"
  shows "messages (handleSendMessage rt1 rt2 fetch s)
      = messages s @
        [plain_message (now rt1) user (JStr (inputMessage s)) (localeTime rt1),
         plain_message (now rt2 + 1) error_type (JStr (js ''Error: '' @ e)) (localeTime rt2)]
    \<and> sublist e (js ''Error: '' @ e)
    \<and> length (messages (handleSendMessage rt1 rt2 fetch s)) = length (messages s) + 2"
proof -
  have nn: "\<not> nullish response" using err by (auto simp: nullish_def)
  let ?s1 = "s\<lparr>error := None,
               messages := messages s @ [plain_message (now rt1) user (JStr (inputMessage s)) (localeTime rt1)],
               inputMessage := [], isTyping := True\<rparr>"
  have b: "handleSendMessage_begin rt1 s
      = (?s1, Some (SendPrompt (inputMessage s) (workingDirectory s) (verboseMode s)))"
    using guard by (simp add: handleSendMessage_begin_def Let_def)
  have t: "handleSendMessage_try rt2 (Inr response) ?s1
      = Inr (?s1\<lparr>messages := messages ?s1 @
        [plain_message (now rt2 + 1) error_type (JStr (js ''Error: '' @ e)) (localeTime rt2)]\<rparr>)"
    using nn fail err by (simp add: handleSendMessage_try_def getProp_def Let_def or_else_def)
  have m: "messages (handleSendMessage rt1 rt2 fetch s)
      = messages s @
        [plain_message (now rt1) user (JStr (inputMessage s)) (localeTime rt1),
         plain_message (now rt2 + 1) error_type (JStr (js ''Error: '' @ e)) (localeTime rt2)]"
    by (simp add: handleSendMessage_def b resp handleSendMessage_resume_def t)
  have "js ''Error: '' @ e = js ''Error: '' @ e @ []" by simp
  then have "sublist e (js ''Error: '' @ e)" unfolding sublist_def by blast
  with m show ?thesis by simp
qed

theorem submit_value_failure_witness:
  "trim (inputMessage asking_state) \<noteq> [] \<and> \<not> isTyping asking_state
   \<and> sendPrompt example_runtime (responding boom_response) (inputMessage asking_state)
        (workingDirectory asking_state) (verboseMode asking_state) = Inr boom_body
   \<and> \<not> truthy (field boom_body (js ''success''))
   \<and> field boom_body (js ''error'') = JStr (js ''boom'') \<and> js ''boom'' \<noteq> []
   \<and> map content (messages (handleSendMessage example_runtime example_runtime
        (responding boom_response) asking_state))
       = map content (messages asking_state)
         @ [JStr (js ''explain main''), JStr (js ''Error: boom'')]
   \<and> map msg_type (messages (handleSendMessage example_runtime example_runtime
        (responding boom_response) asking_state)) = [ai, user, error_type]"
proof -
  have a: "trim (inputMessage asking_state) \<noteq> []"
    by (simp add: asking_state_def initial_state_def trim_def isWhiteSpace_def js_def)
  have b: "\<not> isTyping asking_state"
    by (simp add: asking_state_def initial_state_def)
  have c: "sendPrompt example_runtime (responding boom_response) (inputMessage asking_state)
        (workingDirectory asking_state) (verboseMode asking_state) = Inr boom_body"
    by (simp add: sendPrompt_def responding_def boom_response_def ok_def)
  have d: "\<not> truthy (field boom_body (js ''success''))"
    by (simp add: boom_body_def js_def)
  have e: "field boom_body (js ''error'') = JStr (js ''boom'')"
    by (simp add: boom_body_def js_def)
  have n: "js ''boom'' \<noteq> []" by (simp add: js_def)
  have f: "map msg_type (messages asking_state) = [ai]"
     "inputMessage asking_state = js ''explain main''"
    by (simp_all add: asking_state_def initial_state_def plain_message_def)
  from submit_value_failure [OF a b c d e n, of example_runtime] a b c d e n f
  show ?thesis by (simp add: plain_message_def js_def)
qed

text \<open>
  C3: when the input is empty or all whitespace, and when a request is in flight,
  \<open>handleSendMessage\<close> does nothing: it makes no call and returns the state as it was,
  history included.
\<close>

theorem submit_guard_noop:
  assumes "(\<forall>c\<in>set (inputMessage s). isWhiteSpace c) \<or> isTyping s"
  shows "handleSendMessage_begin rt s = (s, None)
    \<and> handleSendMessage rt rt2 fetch s = s
    \<and> step (Submit rt) \<lparr>ctrl = s, inflight = calls\<rparr> = \<lparr>ctrl = s, inflight = calls\<rparr>"
proof -
  from assms have "trim (inputMessage s) = [] \<or> isTyping s"
    by (simp add: trim_empty_iff)
  then have b: "handleSendMessage_begin rt s = (s, None)"
    by (auto simp add: handleSendMessage_begin_def)
  then show ?thesis by (simp add: handleSendMessage_def started_def)
qed

theorem submit_guard_noop_witness:
  "handleSendMessage_begin example_runtime (initial_state example_runtime)
       = (initial_state example_runtime, None)
   \<and> handleSendMessage example_runtime example_runtime (responding success_response)
        ((initial_state example_runtime)\<lparr>inputMessage := [0x20, 0x09, 0x0A]\<rparr>)
       = (initial_state example_runtime)\<lparr>inputMessage := [0x20, 0x09, 0x0A]\<rparr>
   \<and> isTyping (busy_state\<lparr>inputMessage := js ''hi''\<rparr>)
   \<and> handleSendMessage_begin example_runtime (busy_state\<lparr>inputMessage := js ''hi''\<rparr>)
       = (busy_state\<lparr>inputMessage := js ''hi''\<rparr>, None)"
  using submit_guard_noop [of "initial_state example_runtime" example_runtime]
    submit_guard_noop [of "(initial_state example_runtime)\<lparr>inputMessage := [0x20, 0x09, 0x0A]\<rparr>"
      example_runtime example_runtime "responding success_response"]
    submit_guard_noop [of "busy_state\<lparr>inputMessage := js ''hi''\<rparr>" example_runtime]
  by (simp add: initial_state_def busy_state_def isWhiteSpace_def)

text \<open>
  C6: a non-empty new target is classified as a Git reference exactly when it contains
  \<open>github.com\<close>, \<open>gitlab.com\<close> or \<open>.git\<close>, or starts with \<open>http://\<close> or \<open>https://\<close>;
  \<open>handleDirectoryChange\<close> then calls \<open>validateRepository\<close>, and \<open>validateDirectory\<close>
  otherwise, and never the other one.
\<close>

theorem changeTarget_routing:
  assumes "newValue \<noteq> []"
  shows "isGitUrl newValue = git_reference newValue
    \<and> handleDirectoryChange_begin (Some newValue) s
        = (s\<lparr>isTyping := True\<rparr>,
           Some (if git_reference newValue then ValidateRepository newValue
                 else ValidateDirectory newValue))
    \<and> handleDirectoryChange (Some newValue) rt fetch s
        = handleDirectoryChange_resume rt newValue
            (if git_reference newValue then validateRepository fetch newValue
             else validateDirectory fetch newValue)
            (s\<lparr>isTyping := True\<rparr>)"
  using assms
  by (simp add: isGitUrl_git_reference handleDirectoryChange_begin_def handleDirectoryChange_def)

theorem changeTarget_routing_witness:
  "js ''https://github.com/foo/bar'' \<noteq> []
   \<and> snd (handleDirectoryChange_begin (Some (js ''https://github.com/foo/bar'')) asking_state)
       = Some (ValidateRepository (js ''https://github.com/foo/bar''))
   \<and> js ''/home/user/project'' \<noteq> []
   \<and> snd (handleDirectoryChange_begin (Some (js ''/home/user/project'')) asking_state)
       = Some (ValidateDirectory (js ''/home/user/project''))"
proof -
  have a: "js ''https://github.com/foo/bar'' \<noteq> []" by (simp add: js_def)
  have b: "js ''/home/user/project'' \<noteq> []" by (simp add: js_def)
  have c: "isGitUrl (js ''https://github.com/foo/bar'')" by (simp add: isGitUrl_def js_def)
  have d: "\<not> isGitUrl (js ''/home/user/project'')" by (simp add: isGitUrl_def js_def)
  from changeTarget_routing [OF a, of asking_state] changeTarget_routing [OF b, of asking_state]
    a b c d
  show ?thesis by simp
qed

text \<open>
  C7: however the awaited call settles (a success, a value-level failure, a rejection,
  a response that raises while it is read), \<open>handleSendMessage\<close> past its guard and
  \<open>handleDirectoryChange\<close> past its validation call end with the pending flag cleared.
\<close>

theorem always_returns_to_idle:
  "isTyping (handleSendMessage_resume rt r s) = False
   \<and> isTyping (handleDirectoryChange_resume rt newPath r s) = False
   \<and> (trim (inputMessage s) \<noteq> [] \<and> \<not> isTyping s
        \<longrightarrow> isTyping (handleSendMessage rt1 rt fetch s) = False)
   \<and> (newPath \<noteq> [] \<longrightarrow> isTyping (handleDirectoryChange (Some newPath) rt fetch s) = False)
   \<and> (i < length calls
        \<longrightarrow> isTyping (ctrl (step (Settle i rt fetch) \<lparr>ctrl = s, inflight = calls\<rparr>)) = False)"
proof -
  have a: "trim (inputMessage s) \<noteq> [] \<and> \<not> isTyping s
        \<longrightarrow> isTyping (handleSendMessage rt1 rt fetch s) = False"
    by (simp add: handleSendMessage_def handleSendMessage_begin_def Let_def resume_send_idle)
  have b: "newPath \<noteq> [] \<longrightarrow> isTyping (handleDirectoryChange (Some newPath) rt fetch s) = False"
    by (simp add: handleDirectoryChange_def handleDirectoryChange_begin_def resume_change_idle)
  have c: "isTyping (resume_call rt fetch call s) = False" for call
    by (cases call) (simp_all add: resume_send_idle resume_change_idle)
  have d: "i < length calls
        \<longrightarrow> isTyping (ctrl (step (Settle i rt fetch) \<lparr>ctrl = s, inflight = calls\<rparr>)) = False"
    by (simp add: c)
  from a b d show ?thesis by (simp add: resume_send_idle resume_change_idle)
qed

theorem always_returns_to_idle_witness:
  "trim (inputMessage asking_state) \<noteq> [] \<and> \<not> isTyping asking_state
   \<and> isTyping (handleSendMessage example_runtime example_runtime
        (rejecting (Error (js ''Failed to fetch''))) asking_state) = False
   \<and> js ''/home/user/project'' \<noteq> []
   \<and> isTyping (handleDirectoryChange (Some (js ''/home/user/project'')) example_runtime
        (responding \<lparr>status = 200, json = Inr JNull\<rparr>) asking_state) = False
   \<and> (0::nat) < length [ValidateDirectory (js ''/home/user/project'')]
   \<and> isTyping (ctrl (step (Settle 0 example_runtime (responding boom_response))
        \<lparr>ctrl = busy_state, inflight = [ValidateDirectory (js ''/home/user/project'')]\<rparr>)) = False"
proof -
  have a: "trim (inputMessage asking_state) \<noteq> [] \<and> \<not> isTyping asking_state"
    by (simp add: asking_state_def initial_state_def trim_def isWhiteSpace_def js_def)
  have b: "js ''/home/user/project'' \<noteq> []" by (simp add: js_def)
  have c: "(0::nat) < length [ValidateDirectory (js ''/home/user/project'')]" by simp
  from always_returns_to_idle [of example_runtime _ asking_state "js ''/home/user/project''"
      example_runtime "rejecting (Error (js ''Failed to fetch''))" 0
      "[ValidateDirectory (js ''/home/user/project'')]"]
    always_returns_to_idle [of example_runtime _ asking_state "js ''/home/user/project''"
      example_runtime "responding \<lparr>status = 200, json = Inr JNull\<rparr>" 0
      "[ValidateDirectory (js ''/home/user/project'')]"]
    always_returns_to_idle [of example_runtime _ busy_state "js ''/home/user/project''"
      example_runtime "responding boom_response" 0
      "[ValidateDirectory (js ''/home/user/project'')]"]
    a b c
  show ?thesis by blast
qed

text \<open>
  C9: the history is append-only. Each half of \<open>handleSendMessage\<close> and of
  \<open>handleDirectoryChange\<close>, in every branch, and each handler as a whole, leaves the
  messages it found in place and at most adds messages after them; health polling and
  \<open>clearError\<close> leave the history as it was; and so the history at any moment of a run
  is a prefix of the history at every later moment.
\<close>

theorem history_append_only:
  "prefix (messages s) (messages (fst (handleSendMessage_begin rt s)))
   \<and> prefix (messages s) (messages (handleSendMessage_resume rt r s))
   \<and> prefix (messages s) (messages (handleSendMessage rt1 rt fetch s))
   \<and> prefix (messages s) (messages (fst (handleDirectoryChange_begin answer s)))
   \<and> prefix (messages s) (messages (handleDirectoryChange_resume rt newPath r s))
   \<and> prefix (messages s) (messages (handleDirectoryChange answer rt fetch s))
   \<and> messages (checkHealth fetch s) = messages s
   \<and> messages (clearError s) = messages s
   \<and> prefix (messages (ctrl sys)) (messages (ctrl (run evs sys)))"
  by (simp add: begin_send_messages resume_send_prefix handleSendMessage_messages
      begin_change_messages resume_change_messages handleDirectoryChange_messages
      checkHealth_messages clearError_def run_messages)

theorem history_append_only_witness:
  "prefix (messages asking_state)
     (messages (ctrl (run [Submit example_runtime, ClearError,
                           Settle 0 example_runtime (responding boom_response)]
                      \<lparr>ctrl = asking_state, inflight = []\<rparr>)))"
  using history_append_only [where sys = "\<lparr>ctrl = asking_state, inflight = []\<rparr>"
      and evs = "[Submit example_runtime, ClearError,
                  Settle 0 example_runtime (responding boom_response)]"]
  by simp

end
